theory Spec2Isabelle
  imports Complex_Main "HOL-Library.Word" "HOL-Library.Code_Target_Numeral"
begin

section \<open>Machine numbers used by package gesture\<close>

text \<open>
  Go's \<open>int\<close> and \<open>time.Duration\<close> are modelled as 64-bit words: \<open>+\<close> and \<open>-\<close>
  wrap around, and the comparisons of the source are the signed ones (\<open><s\<close>, \<open>\<le>s\<close>).
\<close>

type_synonym int64 = "64 word"

subsection \<open>float32\<close>

text \<open>
  A \<open>float32\<close> is kept in the canonical form of IEEE 754 binary32: \<open>Finite s m e\<close> is
  \<open>(-1)^s * m * 2^e\<close> with \<open>m < 2^24\<close>, \<open>-149 \<le> e \<le> 104\<close> and \<open>2^23 \<le> m\<close> unless
  \<open>e = -149\<close> (subnormals and the two zeros). Every operation computes the exact result
  on integers and rounds it once, to nearest, ties to even.
\<close>

datatype f32 = Finite bool nat int | Infinity bool | NaN

fun bitlen :: "nat \<Rightarrow> nat" where
  "bitlen n = (if n = 0 then 0 else Suc (bitlen (n div 2)))"

declare bitlen.simps [simp del]

definition rne_shift :: "nat \<Rightarrow> nat \<Rightarrow> nat" where
  \<comment> \<open>\<open>M / 2^k\<close> rounded to the nearest integer, ties to even\<close>
  "rne_shift M k =
     (let q = M div 2 ^ k; r = M mod 2 ^ k
      in if 2 ^ k < 2 * r \<or> (2 * r = 2 ^ k \<and> odd q) then q + 1 else q)"

definition round_f32 :: "bool \<Rightarrow> nat \<Rightarrow> int \<Rightarrow> f32" where
  \<comment> \<open>the float32 nearest to \<open>(-1)^s * M * 2^E\<close>\<close>
  "round_f32 s M E =
     (if M = 0 then Finite s 0 (- 149)
      else
        let e1 = max (E + (int (bitlen M) - 24)) (- 149);
            k = e1 - E;
            m = (if k \<le> 0 then M * 2 ^ nat (- k) else rne_shift M (nat k))
        in if m = 2 ^ 24 then (if 104 < e1 + 1 then Infinity s else Finite s (2 ^ 23) (e1 + 1))
           else if 104 < e1 then Infinity s
           else if m = 0 then Finite s 0 (- 149)
           else Finite s m e1)"

definition signed :: "bool \<Rightarrow> nat \<Rightarrow> int" where
  "signed s m = (if s then - int m else int m)"

fun f32_neg :: "f32 \<Rightarrow> f32" where
  "f32_neg (Finite s m e) = Finite (\<not> s) m e"
| "f32_neg (Infinity s) = Infinity (\<not> s)"
| "f32_neg NaN = NaN"

fun f32_add :: "f32 \<Rightarrow> f32 \<Rightarrow> f32" where
  "f32_add NaN _ = NaN"
| "f32_add _ NaN = NaN"
| "f32_add (Infinity s) (Infinity s') = (if s = s' then Infinity s else NaN)"
| "f32_add (Infinity s) (Finite _ _ _) = Infinity s"
| "f32_add (Finite _ _ _) (Infinity s) = Infinity s"
| "f32_add (Finite s1 m1 e1) (Finite s2 m2 e2) =
     (let e = min e1 e2;
          c = signed s1 m1 * 2 ^ nat (e1 - e) + signed s2 m2 * 2 ^ nat (e2 - e)
      in if c = 0 then Finite (s1 \<and> s2) 0 (- 149)
         else round_f32 (c < 0) (nat \<bar>c\<bar>) e)"

definition f32_sub :: "f32 \<Rightarrow> f32 \<Rightarrow> f32" where
  "f32_sub a b = f32_add a (f32_neg b)"

fun f32_mul :: "f32 \<Rightarrow> f32 \<Rightarrow> f32" where
  "f32_mul NaN _ = NaN"
| "f32_mul _ NaN = NaN"
| "f32_mul (Infinity s) (Infinity s') = Infinity (s \<noteq> s')"
| "f32_mul (Infinity s) (Finite s' m _) = (if m = 0 then NaN else Infinity (s \<noteq> s'))"
| "f32_mul (Finite s m _) (Infinity s') = (if m = 0 then NaN else Infinity (s \<noteq> s'))"
| "f32_mul (Finite s1 m1 e1) (Finite s2 m2 e2) = round_f32 (s1 \<noteq> s2) (m1 * m2) (e1 + e2)"

fun f32_lt :: "f32 \<Rightarrow> f32 \<Rightarrow> bool" where
  "f32_lt NaN _ = False"
| "f32_lt _ NaN = False"
| "f32_lt (Infinity s) (Infinity s') = (s \<and> \<not> s')"
| "f32_lt (Infinity s) (Finite _ _ _) = s"
| "f32_lt (Finite _ _ _) (Infinity s) = (\<not> s)"
| "f32_lt (Finite s1 m1 e1) (Finite s2 m2 e2) =
     (let e = min e1 e2
      in signed s1 m1 * 2 ^ nat (e1 - e) < signed s2 m2 * 2 ^ nat (e2 - e))"

definition f32_gt :: "f32 \<Rightarrow> f32 \<Rightarrow> bool" where
  "f32_gt a b = f32_lt b a"

definition f32_of_int :: "int64 \<Rightarrow> f32" where
  \<comment> \<open>the conversion \<open>float32(i)\<close> of an \<open>int\<close>\<close>
  "f32_of_int i = round_f32 (sint i < 0) (nat \<bar>sint i\<bar>) 0"

definition f32_zero :: f32 where
  "f32_zero = Finite False 0 (- 149)"

text \<open>
  \<open>int(x)\<close> truncates towards zero. When \<open>x\<close> is a NaN, an infinity or outside the range
  of \<open>int\<close>, Go leaves the result to the implementation: \<open>oor\<close> is that result.
\<close>

definition trunc_f32 :: "bool \<Rightarrow> nat \<Rightarrow> int \<Rightarrow> int" where
  "trunc_f32 s m e = signed s (if 0 \<le> e then m * 2 ^ nat e else m div 2 ^ nat (- e))"

fun f32_to_int :: "(f32 \<Rightarrow> int64) \<Rightarrow> f32 \<Rightarrow> int64" where
  "f32_to_int oor (Finite s m e) =
     (let v = trunc_f32 s m e
      in if - (2 ^ 63) \<le> v \<and> v < 2 ^ 63 then word_of_int v else oor (Finite s m e))"
| "f32_to_int oor x = oor x"

text \<open>
  \<open>math.Round(float64(x))\<close>: the widening is exact, and \<open>math.Round\<close> rounds to the nearest
  integer, halves away from zero. A float32 with a fractional part is below \<open>2^23\<close> in
  magnitude, so the result is a float32 again.
\<close>

fun math_Round :: "f32 \<Rightarrow> f32" where
  "math_Round (Finite s m e) =
     (if 0 \<le> e then Finite s m e
      else let q = m div 2 ^ nat (- e); r = m mod 2 ^ nat (- e)
           in round_f32 s (if 2 ^ nat (- e) \<le> 2 * r then q + 1 else q) 0)"
| "math_Round x = x"


section \<open>Pointer events\<close>

text \<open>
  Packages \<open>io/pointer\<close>, \<open>io/key\<close>, \<open>f32\<close> and \<open>image\<close> are imported by the gesture
  package; their declarations are taken from the data model of the specification and
  from the way \<open>gesture.go\<close> uses them.
\<close>

record 'a Point =
  X :: 'a
  Y :: 'a

text \<open>
  Modelled from the spec: \<open>f32.Point.Sub\<close> is declared in package \<open>f32\<close>; the
  displacement "from start" of the Drag recognizer is the component-wise difference.
\<close>

definition Sub :: "f32 Point \<Rightarrow> f32 Point \<Rightarrow> f32 Point" where
  "Sub p p2 = \<lparr>X = f32_sub (X p) (X p2), Y = f32_sub (Y p) (Y p2)\<rparr>"

text \<open>
  Modelled from the spec: the kinds, sources and priority tiers of a pointer event are
  declared in package \<open>io/pointer\<close>; the data model lists them as
  \<open>Enter|Leave|Cancel|Press|Release|Move|Drag|Scroll\<close>, \<open>Mouse|Touch|Pen\<close> and
  \<open>Normal|Grabbed\<close>. The zero value of a source is taken to be the first one listed.
\<close>

datatype Kind =
  pointer_Enter | pointer_Leave | pointer_Cancel | pointer_Press
  | pointer_Release | pointer_Move | pointer_Drag | pointer_Scroll

datatype Source = pointer_Mouse | pointer_Touch | pointer_Pen

datatype Priority = pointer_Normal | pointer_Grabbed

fun tier :: "Priority \<Rightarrow> nat" where
  "tier pointer_Normal = 0"
| "tier pointer_Grabbed = 1"

definition below :: "Priority \<Rightarrow> Priority \<Rightarrow> bool" where
  \<comment> \<open>the comparison \<open>p < q\<close> of two priorities\<close>
  "below p q = (tier p < tier q)"

type_synonym ID = nat
type_synonym Buttons = nat
type_synonym Modifiers = nat

text \<open>
  Modelled from the spec: \<open>pointer.ButtonPrimary\<close> is declared in package \<open>io/pointer\<close>;
  the buttons of an event are a bitset, and the primary button is its lowest bit.
\<close>

definition pointer_ButtonPrimary :: Buttons where
  "pointer_ButtonPrimary = 1"

type_synonym ClickKind = "8 word"

definition KindPress :: ClickKind where "KindPress = 0"
definition KindClick :: ClickKind where "KindClick = 1"
definition KindCancel :: ClickKind where "KindCancel = 2"

type_synonym Axis = "8 word"

definition Horizontal :: Axis where "Horizontal = 0"
definition Vertical :: Axis where "Vertical = 1"
definition Both :: Axis where "Both = 2"

record ClickEvent =
  Kind :: ClickKind
  Position :: "int64 Point"
  Source :: Source
  Modifiers :: Modifiers
  NumClicks :: int64

record Event =
  Kind :: Kind
  Source :: Source
  PointerID :: ID
  Priority :: Priority
  Time :: int64
  Buttons :: Buttons
  Position :: "f32 Point"
  Scroll :: "f32 Point"
  Modifiers :: Modifiers

text \<open>
  An event queue hands out values of the interface \<open>event.Event\<close>; the recognizers skip
  every value that is not a \<open>pointer.Event\<close>.
\<close>

datatype event_Event = pointer_Event Event | other_Event

section \<open>The Click recognizer\<close>

definition doubleClickDuration :: int64 where
  "doubleClickDuration = 200 * 1000000"

record Click =
  clickedAt :: int64
  clicks :: int64
  pressed :: bool
  hovered :: bool
  entered :: bool
  pid :: ID

definition Click_zero :: Click where
  "Click_zero = \<lparr>clickedAt = 0, clicks = 0, Click.pressed = False, hovered = False,
     entered = False, Click.pid = 0\<rparr>"

definition cancel_event :: ClickEvent where
  \<comment> \<open>the literal \<open>ClickEvent{Kind: KindCancel}\<close>\<close>
  "cancel_event = \<lparr>ClickEvent.Kind = KindCancel, ClickEvent.Position = \<lparr>X = 0, Y = 0\<rparr>,
     ClickEvent.Source = pointer_Mouse, ClickEvent.Modifiers = 0, NumClicks = 0\<rparr>"

definition click_event :: "(f32 Point \<Rightarrow> int64 Point) \<Rightarrow> ClickKind \<Rightarrow> Event \<Rightarrow> int64 \<Rightarrow> ClickEvent" where
  \<comment> \<open>the literal \<open>ClickEvent{Kind: k, Position: e.Position.Round(), Source: e.Source,
      Modifiers: e.Modifiers, NumClicks: n}\<close>; \<open>rnd\<close> is \<open>f32.Point.Round\<close>\<close>
  "click_event rnd k e n = \<lparr>ClickEvent.Kind = k, ClickEvent.Position = rnd (Event.Position e),
     ClickEvent.Source = Event.Source e, ClickEvent.Modifiers = Event.Modifiers e, NumClicks = n\<rparr>"

text \<open>One iteration of the loop of \<open>Click.Update\<close>, on a pointer event.\<close>

definition Click_step ::
  "(f32 Point \<Rightarrow> int64 Point) \<Rightarrow> Click \<times> ClickEvent list \<Rightarrow> Event \<Rightarrow> Click \<times> ClickEvent list" where
  "Click_step rnd st e =
     (let c = fst st; events = snd st
      in case Event.Kind e of
        pointer_Release \<Rightarrow>
          if \<not> Click.pressed c \<or> Click.pid c \<noteq> PointerID e then (c, events)
          else
            let c1 = c\<lparr>Click.pressed := False\<rparr>
            in if \<not> entered c1 \<or> hovered c1
               then (c1, events @ [click_event rnd KindClick e (clicks c1)])
               else (c1, events @ [cancel_event])
      | pointer_Cancel \<Rightarrow>
          let wasPressed = Click.pressed c;
              c1 = c\<lparr>Click.pressed := False, hovered := False, entered := False\<rparr>
          in if wasPressed then (c1, events @ [cancel_event]) else (c1, events)
      | pointer_Press \<Rightarrow>
          if Click.pressed c then (c, events)
          else if Event.Source e = pointer_Mouse \<and> Buttons e \<noteq> pointer_ButtonPrimary
          then (c, events)
          else
            let c1 = (if \<not> hovered c then c\<lparr>Click.pid := PointerID e\<rparr> else c)
            in if Click.pid c1 \<noteq> PointerID e then (c1, events)
               else
                 let c2 = c1\<lparr>Click.pressed := True\<rparr>;
                     c3 = (if Time e - clickedAt c2 <s doubleClickDuration
                           then c2\<lparr>clicks := clicks c2 + 1\<rparr>
                           else c2\<lparr>clicks := 1\<rparr>);
                     c4 = c3\<lparr>clickedAt := Time e\<rparr>
                 in (c4, events @ [click_event rnd KindPress e (clicks c4)])
      | pointer_Leave \<Rightarrow>
          let c1 = (if \<not> Click.pressed c then c\<lparr>Click.pid := PointerID e\<rparr> else c)
          in if Click.pid c1 = PointerID e then (c1\<lparr>hovered := False\<rparr>, events)
             else (c1, events)
      | pointer_Enter \<Rightarrow>
          let c1 = (if \<not> Click.pressed c then c\<lparr>Click.pid := PointerID e\<rparr> else c)
          in if Click.pid c1 = PointerID e then (c1\<lparr>hovered := True, entered := True\<rparr>, events)
             else (c1, events)
      | _ \<Rightarrow> (c, events))"

fun Click_loop ::
  "(f32 Point \<Rightarrow> int64 Point) \<Rightarrow> Click \<times> ClickEvent list \<Rightarrow> event_Event list \<Rightarrow> Click \<times> ClickEvent list" where
  "Click_loop rnd st [] = st"
| "Click_loop rnd st (pointer_Event e # q) = Click_loop rnd (Click_step rnd st e) q"
| "Click_loop rnd st (other_Event # q) = Click_loop rnd st q"

definition Click_Update ::
  "(f32 Point \<Rightarrow> int64 Point) \<Rightarrow> Click \<Rightarrow> event_Event list \<Rightarrow> Click \<times> ClickEvent list" where
  "Click_Update rnd c q = Click_loop rnd (c, []) q"

section \<open>The Drag recognizer\<close>

record Drag =
  dragging :: bool
  pressed :: bool
  pid :: ID
  start :: "f32 Point"
  grab :: bool

definition Drag_zero :: Drag where
  "Drag_zero = \<lparr>Drag.dragging = False, Drag.pressed = False, Drag.pid = 0,
     start = \<lparr>X = f32_zero, Y = f32_zero\<rparr>, Drag.grab = False\<rparr>"

definition pin :: "Axis \<Rightarrow> Drag \<Rightarrow> Event \<Rightarrow> Event" where
  \<comment> \<open>the \<open>switch axis\<close> of the \<open>pointer.Drag\<close> case\<close>
  "pin axis d e =
     (if axis = Horizontal then e\<lparr>Event.Position := (Event.Position e)\<lparr>Y := Y (start d)\<rparr>\<rparr>
      else if axis = Vertical then e\<lparr>Event.Position := (Event.Position e)\<lparr>X := X (start d)\<rparr>\<rparr>
      else e)"

definition beyond_slop :: "int64 \<Rightarrow> f32 Point \<Rightarrow> f32 Point \<Rightarrow> bool" where
  \<comment> \<open>\<open>diff.X*diff.X+diff.Y*diff.Y > float32(slop*slop)\<close> for \<open>diff := p.Sub(start)\<close>\<close>
  "beyond_slop slop p st =
     (let diff = Sub p st
      in f32_gt (f32_add (f32_mul (X diff) (X diff)) (f32_mul (Y diff) (Y diff)))
           (f32_of_int (slop * slop)))"

text \<open>
  One iteration of the loop of \<open>Drag.Update\<close>, on a pointer event. \<open>slop\<close> is the value
  of \<open>cfg.Dp(touchSlop)\<close>. An iteration left by \<open>continue\<close> does not reach the
  \<open>append\<close> that ends the loop body.
\<close>

definition Drag_step ::
  "int64 \<Rightarrow> Axis \<Rightarrow> Drag \<times> Event list \<Rightarrow> Event \<Rightarrow> Drag \<times> Event list" where
  "Drag_step slop axis st e =
     (let d = fst st; events = snd st
      in case Event.Kind e of
        pointer_Press \<Rightarrow>
          if \<not> (Buttons e = pointer_ButtonPrimary \<or> Event.Source e = pointer_Touch)
          then (d, events)
          else
            let d1 = d\<lparr>Drag.pressed := True\<rparr>
            in if Drag.dragging d1 then (d1, events)
               else (d1\<lparr>Drag.dragging := True, Drag.pid := PointerID e,
                         start := Event.Position e\<rparr>, events @ [e])
      | pointer_Drag \<Rightarrow>
          if \<not> Drag.dragging d \<or> PointerID e \<noteq> Drag.pid d then (d, events)
          else
            let e1 = pin axis d e;
                d1 = (if below (Priority e1) pointer_Grabbed
                      then (if beyond_slop slop (Event.Position e1) (start d)
                            then d\<lparr>Drag.grab := True\<rparr> else d)
                      else d)
            in (d1, events @ [e1])
      | pointer_Release \<Rightarrow>
          let d1 = d\<lparr>Drag.pressed := False\<rparr>
          in if \<not> Drag.dragging d1 \<or> PointerID e \<noteq> Drag.pid d1 then (d1, events)
             else (d1\<lparr>Drag.dragging := False, Drag.grab := False\<rparr>, events @ [e])
      | pointer_Cancel \<Rightarrow>
          let d1 = d\<lparr>Drag.pressed := False\<rparr>
          in if \<not> Drag.dragging d1 \<or> PointerID e \<noteq> Drag.pid d1 then (d1, events)
             else (d1\<lparr>Drag.dragging := False, Drag.grab := False\<rparr>, events @ [e])
      | _ \<Rightarrow> (d, events @ [e]))"

fun Drag_loop ::
  "int64 \<Rightarrow> Axis \<Rightarrow> Drag \<times> Event list \<Rightarrow> event_Event list \<Rightarrow> Drag \<times> Event list" where
  "Drag_loop slop axis st [] = st"
| "Drag_loop slop axis st (pointer_Event e # q) = Drag_loop slop axis (Drag_step slop axis st e) q"
| "Drag_loop slop axis st (other_Event # q) = Drag_loop slop axis st q"

definition Drag_Update ::
  "int64 \<Rightarrow> Axis \<Rightarrow> Drag \<Rightarrow> event_Event list \<Rightarrow> Drag \<times> Event list" where
  "Drag_Update slop axis d q = Drag_loop slop axis (d, []) q"

section \<open>The Scroll recognizer\<close>

text \<open>
  Package \<open>internal/fling\<close> (the velocity estimator and the fling animation), the metric
  and the platform are parameters of the model, collected in one record. The metric
  \<open>cfg\<close> and the time \<open>t\<close> of a call of \<open>Scroll.Update\<close> do not change during the
  call, so \<open>Start env a v\<close> stands for \<open>a.Start(cfg, t, v)\<close> and \<open>Tick env a\<close> for
  \<open>a.Tick(t)\<close>, which returns the distance and leaves the animation advanced.
\<close>

record Estimate =
  Velocity :: f32
  Distance :: f32

record ('x, 'a) Env =
  slop :: int64 \<comment> \<open>\<open>cfg.Dp(touchSlop)\<close>\<close>
  android :: bool \<comment> \<open>\<open>runtime.GOOS == "android"\<close>\<close>
  oor :: "f32 \<Rightarrow> int64" \<comment> \<open>\<open>int(x)\<close> where Go leaves it to the implementation\<close>
  Extrapolation_zero :: 'x \<comment> \<open>\<open>fling.Extrapolation{}\<close>\<close>
  Sample :: "'x \<Rightarrow> int64 \<Rightarrow> f32 \<Rightarrow> 'x"
  Estimate :: "'x \<Rightarrow> Estimate"
  Animation_zero :: 'a \<comment> \<open>\<open>fling.Animation{}\<close>\<close>
  Start :: "'a \<Rightarrow> f32 \<Rightarrow> 'a"
  Tick :: "'a \<Rightarrow> int64 \<times> 'a"

record ('x, 'a) Scroll =
  dragging :: bool
  axis :: Axis
  estimator :: 'x
  flinger :: 'a
  pid :: ID
  grab :: bool
  last :: int64
  scroll :: f32

definition Stop :: "('x, 'a) Env \<Rightarrow> ('x, 'a) Scroll \<Rightarrow> ('x, 'a) Scroll" where
  "Stop env s = s\<lparr>flinger := Animation_zero env\<rparr>"

definition val :: "('x, 'a) Scroll \<Rightarrow> f32 Point \<Rightarrow> f32" where
  "val s p = (if axis s = Horizontal then X p else Y p)"

definition round_int :: "('x, 'a) Env \<Rightarrow> f32 \<Rightarrow> int64" where
  \<comment> \<open>\<open>int(math.Round(float64(v)))\<close>\<close>
  "round_int env v = f32_to_int (oor env) (math_Round v)"

text \<open>
  One iteration of the loop of \<open>Scroll.Update\<close>, on a pointer event; the state is the
  recognizer and the running \<open>total\<close>.
\<close>

definition Scroll_step ::
  "('x, 'a) Env \<Rightarrow> ('x, 'a) Scroll \<times> int64 \<Rightarrow> Event \<Rightarrow> ('x, 'a) Scroll \<times> int64" where
  "Scroll_step env st e =
     (let s = fst st; total = snd st
      in case Event.Kind e of
        pointer_Press \<Rightarrow>
          if Scroll.dragging s then (s, total)
          else if Event.Source e \<noteq> pointer_Touch \<and> \<not> android env then (s, total)
          else
            let s1 = Stop env s;
                s2 = s1\<lparr>estimator := Extrapolation_zero env\<rparr>;
                v = val s2 (Event.Position e);
                s3 = s2\<lparr>last := round_int env v\<rparr>;
                s4 = s3\<lparr>estimator := Sample env (estimator s3) (Time e) v\<rparr>
            in (s4\<lparr>Scroll.dragging := True, Scroll.pid := PointerID e\<rparr>, total)
      | pointer_Release \<Rightarrow>
          if Scroll.pid s \<noteq> PointerID e then (s, total)
          else
            let fling = Estimate env (estimator s);
                slopf = f32_of_int (slop env);
                d = Distance fling;
                s1 = (if f32_lt d (f32_neg slopf) \<or> f32_gt d slopf
                      then s\<lparr>flinger := Start env (flinger s) (Velocity fling)\<rparr> else s)
            in (s1\<lparr>Scroll.dragging := False, Scroll.grab := False\<rparr>, total)
      | pointer_Cancel \<Rightarrow> (s\<lparr>Scroll.dragging := False, Scroll.grab := False\<rparr>, total)
      | pointer_Scroll \<Rightarrow>
          let s1 = (if axis s = Horizontal
                    then s\<lparr>scroll := f32_add (scroll s) (X (Event.Scroll e))\<rparr>
                    else if axis s = Vertical
                    then s\<lparr>scroll := f32_add (scroll s) (Y (Event.Scroll e))\<rparr>
                    else s);
              iscroll = f32_to_int (oor env) (scroll s1);
              s2 = s1\<lparr>scroll := f32_sub (scroll s1) (f32_of_int iscroll)\<rparr>
          in (s2, total + iscroll)
      | pointer_Drag \<Rightarrow>
          if \<not> Scroll.dragging s \<or> Scroll.pid s \<noteq> PointerID e then (s, total)
          else
            let va = val s (Event.Position e);
                s1 = s\<lparr>estimator := Sample env (estimator s) (Time e) va\<rparr>;
                v = round_int env va;
                dist = last s1 - v
            in if below (Priority e) pointer_Grabbed
               then (if slop env \<le>s dist \<or> dist \<le>s - slop env
                     then s1\<lparr>Scroll.grab := True\<rparr> else s1, total)
               else (s1\<lparr>last := v\<rparr>, total + dist)
      | _ \<Rightarrow> (s, total))"

fun Scroll_loop ::
  "('x, 'a) Env \<Rightarrow> ('x, 'a) Scroll \<times> int64 \<Rightarrow> event_Event list \<Rightarrow> ('x, 'a) Scroll \<times> int64" where
  "Scroll_loop env st [] = st"
| "Scroll_loop env st (pointer_Event e # q) = Scroll_loop env (Scroll_step env st e) q"
| "Scroll_loop env st (other_Event # q) = Scroll_loop env st q"

definition Scroll_Update ::
  "('x, 'a) Env \<Rightarrow> Axis \<Rightarrow> ('x, 'a) Scroll \<Rightarrow> event_Event list \<Rightarrow> ('x, 'a) Scroll \<times> int64" where
  "Scroll_Update env ax s q =
     (if axis s \<noteq> ax then (s\<lparr>axis := ax\<rparr>, 0)
      else
        let st = Scroll_loop env (s, 0) q;
            tk = Tick env (flinger (fst st))
        in ((fst st)\<lparr>flinger := snd tk\<rparr>, snd st + fst tk))"

section \<open>Names of axes and click kinds\<close>

datatype panic = Panic string

definition Axis_String :: "Axis \<Rightarrow> panic + string" where
  "Axis_String a =
     (if a = Horizontal then Inr ''Horizontal''
      else if a = Vertical then Inr ''Vertical''
      else Inl (Panic ''invalid Axis''))"

definition ClickKind_String :: "ClickKind \<Rightarrow> panic + string" where
  "ClickKind_String ct =
     (if ct = KindPress then Inr ''TypePress''
      else if ct = KindClick then Inr ''TypeClick''
      else if ct = KindCancel then Inr ''TypeCancel''
      else Inl (Panic ''invalid ClickType''))"

section \<open>Vocabulary of the properties\<close>


section \<open>Example inputs\<close>

definition touch :: "Kind \<Rightarrow> ID \<Rightarrow> int64 \<Rightarrow> Priority \<Rightarrow> f32 Point \<Rightarrow> Event" where
  \<comment> \<open>a touch event of kind \<open>k\<close> from pointer \<open>i\<close> at time \<open>t\<close>, priority \<open>pr\<close>, position \<open>p\<close>\<close>
  "touch k i t pr p = \<lparr>Event.Kind = k, Event.Source = pointer_Touch, PointerID = i, Priority = pr,
     Time = t, Buttons = 0, Event.Position = p, Event.Scroll = \<lparr>X = f32_zero, Y = f32_zero\<rparr>,
     Event.Modifiers = 0\<rparr>"

definition pt :: "int64 \<Rightarrow> int64 \<Rightarrow> f32 Point" where
  "pt x y = \<lparr>X = f32_of_int x, Y = f32_of_int y\<rparr>"

definition ms :: "int64 \<Rightarrow> int64" where
  \<comment> \<open>\<open>n * time.Millisecond\<close>\<close>
  "ms n = n * 1000000"

definition ex_oor :: "f32 \<Rightarrow> int64" where
  \<comment> \<open>one implementation's answer for a conversion that is out of range\<close>
  "ex_oor x = - (2 ^ 63)"

definition ex_Round :: "f32 Point \<Rightarrow> int64 Point" where
  "ex_Round p = \<lparr>X = f32_to_int ex_oor (math_Round (X p)), Y = f32_to_int ex_oor (math_Round (Y p))\<rparr>"

definition ex_clicked :: Click where
  \<comment> \<open>a Click recognizer after one full click: Press at 0 ms, Release at 10 ms\<close>
  "ex_clicked = fst (Click_Update ex_Round Click_zero
     [pointer_Event (touch pointer_Press 1 (ms 0) pointer_Normal (pt 5 5)),
      pointer_Event (touch pointer_Release 1 (ms 10) pointer_Normal (pt 5 5))])"

definition ex_hovered :: Click where
  \<comment> \<open>a Click recognizer after Enter and Press of pointer 1: pressed and hovered\<close>
  "ex_hovered = fst (Click_Update ex_Round Click_zero
     [pointer_Event (touch pointer_Enter 1 (ms 0) pointer_Normal (pt 5 5)),
      pointer_Event (touch pointer_Press 1 (ms 1) pointer_Normal (pt 5 5))])"

definition ex_left :: Click where
  \<comment> \<open>a Click recognizer after Enter, Press and Leave of pointer 1: pressed, no longer hovered\<close>
  "ex_left = fst (Click_Update ex_Round Click_zero
     [pointer_Event (touch pointer_Enter 1 (ms 0) pointer_Normal (pt 5 5)),
      pointer_Event (touch pointer_Press 1 (ms 1) pointer_Normal (pt 5 5)),
      pointer_Event (touch pointer_Leave 1 (ms 2) pointer_Normal (pt 50 5))])"

definition ex_drag :: Drag where
  \<comment> \<open>a Drag recognizer after a Press of pointer 1 at \<open>(10, 10)\<close>\<close>
  "ex_drag = fst (Drag_Update 3 Horizontal Drag_zero
     [pointer_Event (touch pointer_Press 1 (ms 0) pointer_Normal (pt 10 10))])"

definition wheel :: "ID \<Rightarrow> f32 \<Rightarrow> Event" where
  \<comment> \<open>a mouse wheel event of pointer \<open>i\<close> that scrolls by \<open>d\<close> along Y\<close>
  "wheel i d = \<lparr>Event.Kind = pointer_Scroll, Event.Source = pointer_Mouse, PointerID = i,
     Priority = pointer_Normal, Time = 0, Buttons = 0,
     Event.Position = \<lparr>X = f32_zero, Y = f32_zero\<rparr>, Event.Scroll = \<lparr>X = f32_zero, Y = d\<rparr>,
     Event.Modifiers = 0\<rparr>"

text \<open>
  A stand-in for package \<open>internal/fling\<close> in the examples: the estimator keeps every
  sample and reports the way from the first to the last one, as distance and as velocity;
  the animation remembers the velocity it was started with and does not move. The slop is
  3 pixels.
\<close>

definition ex_env :: "((int64 \<times> f32) list, f32 option) Env" where
  "ex_env = \<lparr>slop = 3, android = False, oor = ex_oor, Extrapolation_zero = [],
     Sample = (\<lambda>x t v. x @ [(t, v)]),
     Estimate = (\<lambda>x. if x = [] then \<lparr>Velocity = f32_zero, Distance = f32_zero\<rparr>
                     else \<lparr>Velocity = f32_sub (snd (List.last x)) (snd (hd x)),
                           Distance = f32_sub (snd (List.last x)) (snd (hd x))\<rparr>),
     Animation_zero = None, Start = (\<lambda>a v. Some v), Tick = (\<lambda>a. (0, a))\<rparr>"

definition ex_scroll :: "((int64 \<times> f32) list, f32 option) Scroll" where
  \<comment> \<open>a vertical Scroll recognizer after a touch Press of pointer 1 at \<open>y = 0\<close>\<close>
  "ex_scroll = \<lparr>Scroll.dragging = True, axis = Vertical, estimator = [(0, f32_zero)],
     flinger = None, Scroll.pid = 1, Scroll.grab = False, last = 0, scroll = f32_zero\<rparr>"

definition ex_idle :: "((int64 \<times> f32) list, f32 option) Scroll" where
  \<comment> \<open>the Scroll recognizer above after a drag to \<open>y = 10\<close>, the Release of pointer 1 and
      a call of \<open>Stop\<close>: no drag and no fling in progress, two samples retained\<close>
  "ex_idle = Stop ex_env (fst (Scroll_loop ex_env (ex_scroll, 0)
     [pointer_Event (touch pointer_Drag 1 (ms 5) pointer_Grabbed (pt 0 10)),
      pointer_Event (touch pointer_Release 1 (ms 6) pointer_Grabbed (pt 0 10))]))"

section \<open>Helper lemmas\<close>


lemma ex_clicked_eq:
  "ex_clicked = \<lparr>clickedAt = 0, clicks = 1, Click.pressed = False, hovered = False,
     entered = False, Click.pid = 1\<rparr>"
  by (simp add: ex_clicked_def Click_Update_def Click_step_def Click_zero_def touch_def ms_def
      doubleClickDuration_def Let_def word_sless_alt)

lemma ex_left_eq:
  "ex_left = \<lparr>clickedAt = 1000000, clicks = 1, Click.pressed = True, hovered = False,
     entered = True, Click.pid = 1\<rparr>"
  by (simp add: ex_left_def Click_Update_def Click_step_def Click_zero_def touch_def ms_def
      doubleClickDuration_def Let_def word_sless_alt)

lemma ex_drag_eq:
  "ex_drag = \<lparr>Drag.dragging = True, Drag.pressed = True, Drag.pid = 1,
     start = pt 10 10, Drag.grab = False\<rparr>"
  by (simp add: ex_drag_def Drag_Update_def Drag_step_def Drag_zero_def touch_def Let_def)

lemma ex_hovered_eq:
  "ex_hovered = \<lparr>clickedAt = 1000000, clicks = 1, Click.pressed = True, hovered = True,
     entered = True, Click.pid = 1\<rparr>"
  by (simp add: ex_hovered_def Click_Update_def Click_step_def Click_zero_def touch_def ms_def
      doubleClickDuration_def Let_def word_sless_alt)

lemma sint_neg:
  fixes sl :: int64
  assumes "sl \<noteq> - (2 ^ 63)"
  shows "sint (- sl) = - sint sl"
proof -
  have "sint sl \<noteq> - (2 ^ 63)"
  proof
    assume "sint sl = - (2 ^ 63)"
    then have "word_of_int (sint sl) = (word_of_int (- (2 ^ 63)) :: int64)" by simp
    then show False using assms by simp
  qed
  moreover have "- (2 ^ 63) \<le> sint sl" "sint sl < 2 ^ 63"
    using sint_ge [of sl] sint_lt [of sl] by simp_all
  ultimately have rng: "- (2 ^ 63) \<le> - sint sl" "- sint sl < 2 ^ 63" by linarith+
  have "sint (- sl) = signed_take_bit 63 (- sint sl)"
    by (simp add: sint_word_ariths)
  also have "\<dots> = - sint sl"
    using rng by (intro signed_take_bit_int_eq_self) simp_all
  finally show ?thesis .
qed

lemma sle_magnitude:
  "(sl \<le>s dist \<or> dist \<le>s - sl) = (sint sl \<le> \<bar>sint dist\<bar>)" for sl dist :: int64
proof (cases "sl = - (2 ^ 63)")
  case True
  then have "sint sl = - (2 ^ 63)" by simp
  moreover have "- (2 ^ 63) \<le> sint dist" using sint_ge [of dist] by simp
  ultimately show ?thesis by (simp add: word_sle_eq)
next
  case False
  then have "sint (- sl) = - sint sl" by (rule sint_neg)
  then show ?thesis by (auto simp: word_sle_eq)
qed

section \<open>Click: counting successive presses\<close>



section \<open>Names of axes and click kinds: the missing case\<close>

text \<open>
  C9. \<open>Both\<close> is one of the three declared axes, and \<open>Axis.String\<close> panics on it with
  "invalid Axis": its switch names Horizontal and Vertical only. The three click kinds
  all have a name.
\<close>

theorem Axis_String_Both_panics:
  "Axis_String Both = Inl (Panic ''invalid Axis'')
   \<and> Axis_String Horizontal = Inr ''Horizontal''
   \<and> Axis_String Vertical = Inr ''Vertical''
   \<and> ClickKind_String KindPress = Inr ''TypePress''
   \<and> ClickKind_String KindClick = Inr ''TypeClick''
   \<and> ClickKind_String KindCancel = Inr ''TypeCancel''"
  by (simp add: Axis_String_def ClickKind_String_def Both_def Horizontal_def Vertical_def
      KindPress_def KindClick_def KindCancel_def)

section \<open>Click: the end of a press\<close>

text \<open>
  C2. A Release of the owned pointer while pressed clears \<open>pressed\<close>, changes nothing
  else and appends exactly one event to the output. When the pointer is hovered or no
  Enter was ever seen, the kind of that event is KindClick and its click count is the
  current count (its position, source and modifiers are those of the Release);
  otherwise its kind is KindCancel. Any other Release leaves the recognizer and the
  output as they were.
\<close>

theorem Click_Release:
  "Event.Kind e = pointer_Release \<Longrightarrow>
   (let r = Click_step rnd (c, events) e; ev = List.last (snd r)
    in (Click.pressed c \<and> Click.pid c = PointerID e \<longrightarrow>
          fst r = c\<lparr>Click.pressed := False\<rparr> \<and> \<not> Click.pressed (fst r)
          \<and> snd r = events @ [ev])
     \<and> (Click.pressed c \<and> Click.pid c = PointerID e \<and> (\<not> entered c \<or> hovered c) \<longrightarrow>
          ClickEvent.Kind ev = KindClick \<and> NumClicks ev = clicks c
          \<and> ClickEvent.Position ev = rnd (Event.Position e)
          \<and> ClickEvent.Source ev = Event.Source e
          \<and> ClickEvent.Modifiers ev = Event.Modifiers e)
     \<and> (Click.pressed c \<and> Click.pid c = PointerID e \<and> entered c \<and> \<not> hovered c \<longrightarrow>
          ClickEvent.Kind ev = KindCancel \<and> ClickEvent.Kind ev \<noteq> KindClick)
     \<and> (\<not> (Click.pressed c \<and> Click.pid c = PointerID e) \<longrightarrow> r = (c, events)))"
  by (auto simp: Click_step_def Let_def click_event_def cancel_event_def
      KindClick_def KindCancel_def)

text \<open>
  Pressed and hovered, the Release of pointer 1 is answered by one KindClick event (kind
  1) with click count 1, and the press is over. After the pointer has left, the same
  Release is answered by one KindCancel event (kind 2). A Release of pointer 2 is
  answered by nothing.
\<close>

theorem Click_Release_witness:
  "Event.Kind (touch pointer_Release 1 (ms 3) pointer_Normal (pt 50 5)) = pointer_Release
   \<and> Click.pressed ex_hovered
   \<and> Click.pid ex_hovered = PointerID (touch pointer_Release 1 (ms 3) pointer_Normal (pt 50 5))
   \<and> hovered ex_hovered
   \<and> length (snd (Click_step ex_Round (ex_hovered, [])
        (touch pointer_Release 1 (ms 3) pointer_Normal (pt 50 5)))) = 1
   \<and> ClickEvent.Kind (List.last (snd (Click_step ex_Round (ex_hovered, [])
        (touch pointer_Release 1 (ms 3) pointer_Normal (pt 50 5))))) = 1
   \<and> NumClicks (List.last (snd (Click_step ex_Round (ex_hovered, [])
        (touch pointer_Release 1 (ms 3) pointer_Normal (pt 50 5))))) = 1
   \<and> \<not> Click.pressed (fst (Click_step ex_Round (ex_hovered, [])
        (touch pointer_Release 1 (ms 3) pointer_Normal (pt 50 5))))
   \<and> Click.pressed ex_left \<and> entered ex_left \<and> \<not> hovered ex_left
   \<and> length (snd (Click_step ex_Round (ex_left, [])
        (touch pointer_Release 1 (ms 3) pointer_Normal (pt 50 5)))) = 1
   \<and> ClickEvent.Kind (List.last (snd (Click_step ex_Round (ex_left, [])
        (touch pointer_Release 1 (ms 3) pointer_Normal (pt 50 5))))) = 2
   \<and> Click.pid ex_left \<noteq> PointerID (touch pointer_Release 2 (ms 3) pointer_Normal (pt 50 5))
   \<and> Click_step ex_Round (ex_left, []) (touch pointer_Release 2 (ms 3) pointer_Normal (pt 50 5))
       = (ex_left, [])"
  using Click_Release [of "touch pointer_Release 1 (ms 3) pointer_Normal (pt 50 5)" ex_Round ex_hovered "[]"]
    Click_Release [of "touch pointer_Release 1 (ms 3) pointer_Normal (pt 50 5)" ex_Round ex_left "[]"]
    Click_Release [of "touch pointer_Release 2 (ms 3) pointer_Normal (pt 50 5)" ex_Round ex_left "[]"]
  by (simp add: ex_left_eq ex_hovered_eq touch_def Let_def KindClick_def KindCancel_def
      Click_step_def click_event_def cancel_event_def)

section \<open>Cancel\<close>

text \<open>
  C7. A Cancel event is handled whatever its pointer id. The Click recognizer clears
  \<open>pressed\<close>, \<open>hovered\<close> and \<open>entered\<close> and keeps the rest of its state; when a press
  was in progress it appends exactly one event, of kind KindCancel, and otherwise it
  appends nothing. The Scroll recognizer clears \<open>dragging\<close> and the grab request and
  leaves the rest of its state and the running total alone.
\<close>

theorem Cancel_is_absolute:
  "Event.Kind e = pointer_Cancel \<Longrightarrow>
   (let r = Click_step rnd (c, events) e; ev = List.last (snd r);
        r2 = Scroll_step env (s, tot) e
    in fst r = c\<lparr>Click.pressed := False, hovered := False, entered := False\<rparr>
     \<and> \<not> Click.pressed (fst r) \<and> \<not> hovered (fst r) \<and> \<not> entered (fst r)
     \<and> (Click.pressed c \<longrightarrow>
          snd r = events @ [ev] \<and> ClickEvent.Kind ev = KindCancel
          \<and> ClickEvent.Kind ev \<noteq> KindClick \<and> ClickEvent.Kind ev \<noteq> KindPress)
     \<and> (\<not> Click.pressed c \<longrightarrow> snd r = events)
     \<and> r2 = (s\<lparr>Scroll.dragging := False, Scroll.grab := False\<rparr>, tot)
     \<and> \<not> Scroll.dragging (fst r2) \<and> \<not> Scroll.grab (fst r2))"
  by (auto simp: Click_step_def Scroll_step_def Let_def cancel_event_def
      KindClick_def KindCancel_def KindPress_def)

text \<open>
  A Cancel of pointer 7 ends the press of pointer 1 with one KindCancel event (kind 2)
  and ends the drag of pointer 1; on a recognizer that is not pressed it emits nothing.
\<close>

theorem Cancel_is_absolute_witness:
  "Event.Kind (touch pointer_Cancel 7 (ms 3) pointer_Normal (pt 5 5)) = pointer_Cancel
   \<and> Click.pid ex_hovered \<noteq> 7 \<and> Scroll.pid ex_scroll \<noteq> 7
   \<and> Click.pressed ex_hovered \<and> hovered ex_hovered \<and> entered ex_hovered
   \<and> length (snd (Click_step ex_Round (ex_hovered, [])
        (touch pointer_Cancel 7 (ms 3) pointer_Normal (pt 5 5)))) = 1
   \<and> ClickEvent.Kind (List.last (snd (Click_step ex_Round (ex_hovered, [])
        (touch pointer_Cancel 7 (ms 3) pointer_Normal (pt 5 5))))) = 2
   \<and> \<not> hovered (fst (Click_step ex_Round (ex_hovered, [])
        (touch pointer_Cancel 7 (ms 3) pointer_Normal (pt 5 5))))
   \<and> \<not> Click.pressed ex_clicked
   \<and> snd (Click_step ex_Round (ex_clicked, [])
        (touch pointer_Cancel 7 (ms 3) pointer_Normal (pt 5 5))) = []
   \<and> Scroll.dragging ex_scroll
   \<and> \<not> Scroll.dragging (fst (Scroll_step ex_env (ex_scroll, 0)
        (touch pointer_Cancel 7 (ms 3) pointer_Normal (pt 5 5))))"
  using Cancel_is_absolute [of "touch pointer_Cancel 7 (ms 3) pointer_Normal (pt 5 5)" ex_Round
      ex_hovered "[]" ex_env ex_scroll 0]
    Cancel_is_absolute [of "touch pointer_Cancel 7 (ms 3) pointer_Normal (pt 5 5)" ex_Round
      ex_clicked "[]" ex_env ex_scroll 0]
  by (simp add: ex_hovered_eq ex_clicked_eq ex_scroll_def touch_def Let_def KindCancel_def
      Click_step_def Scroll_step_def cancel_event_def)


end
